theory Spec2Isabelle
  imports Complex_Main
begin

section \<open>Data model\<close>

text \<open>
  The storefront keeps its data in a hosted Postgres database reached through the
  Supabase client. The row types follow the interfaces of
  \<^verbatim>\<open>client/lib/supabaseClient.ts\<close> and the tables of
  \<^verbatim>\<open>supabase/migrations/20250907000000_final_consolidated_schema.sql\<close>.
  UUIDs are opaque identifiers and are modelled as natural numbers. Prices are
  \<^verbatim>\<open>numeric(10,2)\<close> in the database: exact decimals, modelled as rationals. The client
  receives them as JavaScript numbers and computes in IEEE doubles (section
  "JavaScript numbers" below). Quantities are integers. Columns that no operation of the
  cart and order code reads (descriptions, image URLs, ratings, timestamps) are left out.
\<close>

type_synonym uuid = nat

record product =
  pid :: uuid
  name :: string
  price :: rat
  stock :: int
  is_active :: bool

text \<open>A row of \<^verbatim>\<open>cart_items\<close>, and the same row with its embedded product as
  \<^verbatim>\<open>select('*, product:products(*)')\<close> returns it (interface \<^verbatim>\<open>CartItem\<close> of
  supabaseClient.ts, whose \<^verbatim>\<open>product\<close> field is optional).\<close>

record cart_row =
  cid :: uuid
  user_id :: uuid
  product_id :: uuid
  quantity :: int

record cart_item = cart_row +
  product :: "product option"

datatype status = Pending | Processing | Shipped | Completed | Cancelled

text \<open>An entry of the \<^verbatim>\<open>products\<close> array of an order:
  \<^verbatim>\<open>{product_id, title, price, quantity}\<close>.\<close>

record order_item =
  item_product_id :: uuid
  item_title :: string
  item_price :: rat
  item_quantity :: int

text \<open>What \<^verbatim>\<open>orders.create\<close> receives (an \<^verbatim>\<open>Order\<close> without id and timestamps), and
  the stored row. The shipping address is an opaque JSON payload; \<^verbatim>\<open>None\<close> is JSON null.\<close>

record order_input =
  order_user_id :: uuid
  order_products :: "order_item list"
  order_total :: rat
  status :: status
  shipping_address :: "string option"

record order = order_input +
  oid :: uuid

section \<open>The remote store\<close>

text \<open>
  Every call of the Supabase query builder resolves to an object \<^verbatim>\<open>{data, error}\<close>; it
  does not reject. The errors that the schema and the transport can produce:
  a failed fetch, PostgREST's PGRST116 (\<^verbatim>\<open>.single()\<close> on a result that is not exactly one
  row), and the Postgres errors 22003 (numeric value out of range), 23503 (foreign key),
  23505 (unique), 23514 (check), 42501 (row-level security) and 42P17 (infinite recursion
  detected in a policy).
\<close>

datatype pg_error =
    FetchFailed
  | PGRST116
  | NumericOutOfRange
  | ForeignKeyViolation
  | UniqueViolation
  | CheckViolation
  | RlsViolation
  | InfiniteRecursion

datatype 'a response = Response (data: "'a option") (error: "pg_error option")

definition ok :: "'a \<Rightarrow> 'a response" where
  "ok x = Response (Some x) None"

definition ok_null :: "'a response" where
  "ok_null = Response None None"

definition failed :: "pg_error \<Rightarrow> 'a response" where
  "failed e = Response None (Some e)"

text \<open>\<^verbatim>\<open>.single()\<close>: the one row of the result, or PGRST116.\<close>

fun single :: "'a list \<Rightarrow> 'a response" where
  "single [r] = ok r"
| "single rows = failed PGRST116"

text \<open>The requests the client code issues, one constructor per query-builder chain.\<close>

datatype request =
    SelectCartItems uuid
  | SelectCartLine uuid uuid
  | UpdateCartQuantity uuid int
  | InsertCartLine uuid uuid int
  | DeleteCartLine uuid
  | DeleteCart uuid
  | InsertOrder order_input
  | UpdateOrderStatus uuid status

text \<open>
  The backend as one client session sees it: the three tables, the principal of the
  session (\<^verbatim>\<open>auth.uid()\<close>, \<^verbatim>\<open>None\<close> for the anonymous role), whether the service can
  be reached, and the requests this client has sent so far.
\<close>

record backend =
  products :: "product list"
  cart_items :: "cart_row list"
  orders :: "order list"
  auth_uid :: "uuid option"
  reachable :: bool
  requests :: "request list"

definition sent :: "request \<Rightarrow> backend \<Rightarrow> backend" where
  "sent r b = b\<lparr>requests := requests b @ [r]\<rparr>"

text \<open>The row-level-security policies of the schema, as the migration writes them.
  \<^item> cart_items, "Users can manage own cart items":
    \<^verbatim>\<open>FOR ALL TO authenticated USING (user_id = auth.uid())\<close>. The anonymous role has no
    policy on the table.
  \<^item> products, "Anyone can view active products": \<^verbatim>\<open>FOR SELECT USING (is_active = true)\<close>,
    for every role; "Admins can manage all products": \<^verbatim>\<open>FOR ALL TO authenticated\<close>, with
    the admin sub-query \<^verbatim>\<open>EXISTS (SELECT 1 FROM profiles p WHERE p.id = auth.uid() AND ...)\<close>.
  \<^item> orders, "Users can view own orders", "Users can create own orders", "Admins can view
    all orders" and "Admins can update all orders" (the only UPDATE policy), all
    \<^verbatim>\<open>TO authenticated\<close>, the admin ones with the same sub-query.
  \<^item> profiles, "Admins can view all profiles": \<^verbatim>\<open>FOR SELECT TO authenticated\<close>, whose
    condition is the admin sub-query on \<^verbatim>\<open>profiles\<close> itself.

  The last policy refers to its own table. Postgres expands the policies of every table
  a statement reads before it runs the statement, so each statement of an authenticated
  session that reads \<^verbatim>\<open>products\<close> or reads or writes \<^verbatim>\<open>orders\<close> reaches the admin
  sub-query, expands the policies of \<^verbatim>\<open>profiles\<close> within it and is refused with 42P17,
  whatever the rows and whoever the user. Statements on \<^verbatim>\<open>cart_items\<close> alone reach no
  such sub-query (foreign keys are checked without policies).\<close>

definition policy_recursion :: "backend \<Rightarrow> bool" where
  "policy_recursion b = (auth_uid b \<noteq> None)"

definition cart_policy :: "backend \<Rightarrow> cart_row \<Rightarrow> bool" where
  "cart_policy b r = (auth_uid b = Some (user_id r))"

text \<open>What is left for the anonymous role: the active products, no cart line, no order.\<close>

definition product_policy :: "product \<Rightarrow> bool" where
  "product_policy p = is_active p"

text \<open>\<^verbatim>\<open>integer\<close> columns hold 32-bit signed values; a \<^verbatim>\<open>numeric(10,2)\<close> column rounds
  to two decimals, half away from zero, and refuses what then needs more than eight
  digits before the point; \<^verbatim>\<open>gen_random_uuid()\<close> yields an identifier no row of the table
  has.\<close>

definition int4 :: "int \<Rightarrow> bool" where
  "int4 q = (- 2147483648 \<le> q \<and> q \<le> 2147483647)"

definition numeric_10_2_overflow :: "rat \<Rightarrow> bool" where
  "numeric_10_2_overflow t = (99999999995 / 1000 \<le> \<bar>t\<bar>)"

definition fresh_id :: "uuid list \<Rightarrow> uuid" where
  "fresh_id ids = Suc (foldr max ids 0)"

subsection \<open>Queries on cart_items\<close>

text \<open>\<^verbatim>\<open>from('cart_items').select('*').eq('user_id', u).eq('product_id', p).single()\<close>\<close>

definition select_cart_line :: "backend \<Rightarrow> uuid \<Rightarrow> uuid \<Rightarrow> backend \<times> cart_row response" where
  "select_cart_line b u p =
     (sent (SelectCartLine u p) b,
      if \<not> reachable b then failed FetchFailed
      else single (filter (\<lambda>r. user_id r = u \<and> product_id r = p)
                     (filter (cart_policy b) (cart_items b))))"

text \<open>\<^verbatim>\<open>from('cart_items').update({ quantity }).eq('id', i).select().single()\<close>.
  The row must be one the policy lets the session update; the new value must fit the
  column and satisfy \<^verbatim>\<open>CHECK (quantity > 0)\<close>. A statement that fails changes nothing.\<close>

definition update_cart_quantity :: "backend \<Rightarrow> uuid \<Rightarrow> int \<Rightarrow> backend \<times> cart_row response" where
  "update_cart_quantity b i q =
     (let b' = sent (UpdateCartQuantity i q) b in
      if \<not> reachable b then (b', failed FetchFailed)
      else if \<not> int4 q then (b', failed NumericOutOfRange)
      else (case filter (\<lambda>r. cid r = i) (filter (cart_policy b) (cart_items b)) of
              [r] \<Rightarrow>
                if q > 0
                then (b'\<lparr>cart_items :=
                            map (\<lambda>x. if cid x = i \<and> cart_policy b x then x\<lparr>quantity := q\<rparr> else x)
                              (cart_items b)\<rparr>,
                      ok (r\<lparr>quantity := q\<rparr>))
                else (b', failed CheckViolation)
            | _ \<Rightarrow> (b', failed PGRST116)))"

text \<open>\<^verbatim>\<open>from('cart_items').insert([{ user_id, product_id, quantity }]).select().single()\<close>.
  Postgres checks the policy, then the CHECK constraint, then
  \<^verbatim>\<open>UNIQUE(user_id, product_id)\<close>, then the foreign key to \<^verbatim>\<open>products\<close>. (The
  foreign key to \<^verbatim>\<open>profiles\<close> holds for every authenticated principal; the table is
  not modelled.)\<close>

definition insert_cart_line :: "backend \<Rightarrow> uuid \<Rightarrow> uuid \<Rightarrow> int \<Rightarrow> backend \<times> cart_row response" where
  "insert_cart_line b u p q =
     (let b' = sent (InsertCartLine u p q) b in
      if \<not> reachable b then (b', failed FetchFailed)
      else if \<not> int4 q then (b', failed NumericOutOfRange)
      else if auth_uid b \<noteq> Some u then (b', failed RlsViolation)
      else if q \<le> 0 then (b', failed CheckViolation)
      else if filter (\<lambda>r. user_id r = u \<and> product_id r = p) (cart_items b) \<noteq> []
        then (b', failed UniqueViolation)
      else if p \<notin> set (map pid (products b)) then (b', failed ForeignKeyViolation)
      else (let r = \<lparr>cid = fresh_id (map cid (cart_items b)), user_id = u,
                      product_id = p, quantity = q\<rparr>
            in (b'\<lparr>cart_items := cart_items b @ [r]\<rparr>, ok r)))"

text \<open>\<^verbatim>\<open>from('cart_items').delete().eq('id', i)\<close> and
  \<^verbatim>\<open>from('cart_items').delete().eq('user_id', u)\<close>: no \<^verbatim>\<open>.select()\<close>, so the data is
  null, and deleting no row is not an error.\<close>

definition delete_cart_line :: "backend \<Rightarrow> uuid \<Rightarrow> backend \<times> cart_row response" where
  "delete_cart_line b i =
     (let b' = sent (DeleteCartLine i) b in
      if \<not> reachable b then (b', failed FetchFailed)
      else (b'\<lparr>cart_items := filter (\<lambda>r. \<not> (cid r = i \<and> cart_policy b r)) (cart_items b)\<rparr>,
            ok_null))"

definition delete_cart :: "backend \<Rightarrow> uuid \<Rightarrow> backend \<times> cart_row response" where
  "delete_cart b u =
     (let b' = sent (DeleteCart u) b in
      if \<not> reachable b then (b', failed FetchFailed)
      else (b'\<lparr>cart_items := filter (\<lambda>r. \<not> (user_id r = u \<and> cart_policy b r)) (cart_items b)\<rparr>,
            ok_null))"

text \<open>\<^verbatim>\<open>from('cart_items').select('*, product:products(*)').eq('user_id', u)\<close>: the
  statement reads \<^verbatim>\<open>products\<close>, so an authenticated session is refused with 42P17. For
  the anonymous role it yields each visible row of the user with the product its
  \<^verbatim>\<open>product_id\<close> points to, or null when the role cannot see that product; as the role
  sees no cart line, that is the empty list.\<close>

definition embed_product :: "backend \<Rightarrow> cart_row \<Rightarrow> cart_item" where
  "embed_product b r =
     \<lparr>cid = cid r, user_id = user_id r, product_id = product_id r, quantity = quantity r,
      product = find (\<lambda>p. pid p = product_id r) (filter product_policy (products b))\<rparr>"

definition select_cart_items :: "backend \<Rightarrow> uuid \<Rightarrow> backend \<times> cart_item list response" where
  "select_cart_items b u =
     (sent (SelectCartItems u) b,
      if \<not> reachable b then failed FetchFailed
      else if policy_recursion b then failed InfiniteRecursion
      else ok (map (embed_product b)
                 (filter (\<lambda>r. user_id r = u) (filter (cart_policy b) (cart_items b)))))"

subsection \<open>Queries on orders\<close>

text \<open>\<^verbatim>\<open>from('orders').insert([order]).select().single()\<close>. The statement returns the
  inserted row, so it reads \<^verbatim>\<open>orders\<close> under the SELECT policies: an authenticated
  session is refused with 42P17 before anything is inserted. For the anonymous role the
  total is first converted to \<^verbatim>\<open>numeric(10,2)\<close> and the row is then refused, as the role
  has no INSERT policy. No session of this client gets a row in, so the constraints on a
  stored row (NOT NULL, \<^verbatim>\<open>CHECK (total >= 0)\<close>, the rounding of the total) are never
  reached.\<close>

definition insert_order :: "backend \<Rightarrow> order_input \<Rightarrow> backend \<times> order response" where
  "insert_order b inp =
     (let b' = sent (InsertOrder inp) b in
      if \<not> reachable b then (b', failed FetchFailed)
      else if policy_recursion b then (b', failed InfiniteRecursion)
      else if numeric_10_2_overflow (order_total inp) then (b', failed NumericOutOfRange)
      else (b', failed RlsViolation))"


section \<open>The cart and order helpers of supabaseClient.ts\<close>

text \<open>\<^verbatim>\<open>cart.getItems\<close> awaits the select and then reads its answer: on an error it logs
  and returns the empty list, else \<^verbatim>\<open>data || []\<close>. \<open>getItems_result\<close> is the part after
  the await, for whatever the store answers.\<close>

definition getItems_result :: "cart_item list response \<Rightarrow> cart_item list" where
  "getItems_result r =
     (if error r \<noteq> None then []
      else (case data r of None \<Rightarrow> [] | Some rows \<Rightarrow> rows))"

definition cart_getItems :: "backend \<Rightarrow> uuid \<Rightarrow> backend \<times> cart_item list" where
  "cart_getItems b userId =
     (let (b', r) = select_cart_items b userId in (b', getItems_result r))"

text \<open>\<^verbatim>\<open>cart.addItem\<close> awaits two store calls: the lookup of an existing line, then an
  update or an insert. Other sessions can change the store between the two;
  \<open>between\<close> is what they do to it. The error of the lookup is not read.\<close>

definition cart_addItem_racing ::
  "(backend \<Rightarrow> backend) \<Rightarrow> backend \<Rightarrow> uuid \<Rightarrow> uuid \<Rightarrow> int \<Rightarrow> backend \<times> cart_row response" where
  "cart_addItem_racing between b userId productId qty =
     (let (b1, r) = select_cart_line b userId productId;
          b2 = between b1
      in case data r of
           Some existingItem \<Rightarrow>
             update_cart_quantity b2 (cid existingItem) (quantity existingItem + qty)
         | None \<Rightarrow> insert_cart_line b2 userId productId qty)"

definition cart_addItem :: "backend \<Rightarrow> uuid \<Rightarrow> uuid \<Rightarrow> int \<Rightarrow> backend \<times> cart_row response" where
  "cart_addItem b userId productId qty = cart_addItem_racing (\<lambda>s. s) b userId productId qty"

definition cart_removeItem :: "backend \<Rightarrow> uuid \<Rightarrow> backend \<times> cart_row response" where
  "cart_removeItem b itemId = delete_cart_line b itemId"

definition cart_updateQuantity :: "backend \<Rightarrow> uuid \<Rightarrow> int \<Rightarrow> backend \<times> cart_row response" where
  "cart_updateQuantity b itemId qty =
     (if qty \<le> 0 then cart_removeItem b itemId
      else update_cart_quantity b itemId qty)"

definition cart_clearCart :: "backend \<Rightarrow> uuid \<Rightarrow> backend \<times> cart_row response" where
  "cart_clearCart b userId = delete_cart b userId"

definition orders_create :: "backend \<Rightarrow> order_input \<Rightarrow> backend \<times> order response" where
  "orders_create b ord = insert_order b ord"


section \<open>JavaScript numbers\<close>

text \<open>
  A JavaScript number is an IEEE 754 binary64 value: a rational of the form
  \<open>m * 2^e\<close> with \<open>\<bar>m\<bar> < 2^53\<close> and \<open>- 1074 \<le> e \<le> 971\<close>, an infinity, or NaN. The sign
  of zero is not modelled: sums and products of the values below differ by it in no
  other way, and the running sum of \<^verbatim>\<open>reduce\<close>, which starts at +0, is never -0.
\<close>

datatype number = Finite rat | PosInf | NegInf | NaN

text \<open>The number of binary digits of a positive integer, and integer powers of two.\<close>

function bits :: "int \<Rightarrow> int" where
  "bits n = (if n \<le> 0 then 0 else 1 + bits (n div 2))"
  by pat_completeness auto
termination
  by (relation "measure nat") auto

declare bits.simps [simp del]

definition pow2 :: "int \<Rightarrow> rat" where
  "pow2 k = (if 0 \<le> k then 2 ^ nat k else 1 / 2 ^ nat (- k))"

text \<open>Rounding to the nearest integer, ties to the even one; and \<open>\<lfloor>log\<^sub>2 a\<rfloor>\<close> for a
  positive rational.\<close>

definition round_even :: "rat \<Rightarrow> int" where
  "round_even y =
     (let f = \<lfloor>y\<rfloor>; d = y - of_int f
      in if d < 1 / 2 then f else if 1 / 2 < d then f + 1 else if even f then f else f + 1)"

definition ilog2 :: "rat \<Rightarrow> int" where
  "ilog2 a =
     (let (p, q) = quotient_of a;
          k = bits p - bits q
      in if pow2 k \<le> a then k else k - 1)"

fun js_neg :: "number \<Rightarrow> number" where
  "js_neg (Finite a) = Finite (- a)"
| "js_neg PosInf = NegInf"
| "js_neg NegInf = PosInf"
| "js_neg NaN = NaN"

text \<open>
  Round to nearest, ties to even, as every arithmetic operation and the parsing of a
  JSON number do. For a positive \<open>a\<close> with \<open>2^e \<le> a < 2^(e+1)\<close> the last place is
  \<open>2^(e - 52)\<close>, and \<open>2^(- 1074)\<close> for the subnormal values; what rounds to \<open>2^1024\<close> or
  more is infinite.
\<close>

definition round_pos :: "rat \<Rightarrow> number" where
  "round_pos a =
     (let e = ilog2 a;
          qe = max (e - 52) (- 1074);
          n = round_even (a / pow2 qe)
      in if 1024 \<le> e \<or> (e = 1023 \<and> n = 2 ^ 53) then PosInf
         else Finite (of_int n * pow2 qe))"

definition binary64 :: "rat \<Rightarrow> number" where
  "binary64 x =
     (if x = 0 then Finite 0
      else if 0 < x then round_pos x
      else js_neg (round_pos (- x)))"

text \<open>The operators \<^verbatim>\<open>+\<close> and \<^verbatim>\<open>*\<close> on numbers.\<close>

fun js_add :: "number \<Rightarrow> number \<Rightarrow> number" where
  "js_add NaN y = NaN"
| "js_add x NaN = NaN"
| "js_add (Finite a) (Finite b) = binary64 (a + b)"
| "js_add (Finite a) y = y"
| "js_add x (Finite b) = x"
| "js_add x y = (if x = y then x else NaN)"

fun js_mul :: "number \<Rightarrow> number \<Rightarrow> number" where
  "js_mul NaN y = NaN"
| "js_mul x NaN = NaN"
| "js_mul (Finite a) (Finite b) = binary64 (a * b)"
| "js_mul (Finite a) y = (if a = 0 then NaN else if 0 < a then y else js_neg y)"
| "js_mul x (Finite b) = (if b = 0 then NaN else if 0 < b then x else js_neg x)"
| "js_mul x y = (if x = y then PosInf else NegInf)"

text \<open>The number that \<^verbatim>\<open>JSON.parse\<close> makes of a decimal of the store's answer.\<close>

definition from_json :: "rat \<Rightarrow> number" where
  "from_json x = binary64 x"

section \<open>The cart context (contexts/CartContext.tsx)\<close>

text \<open>
  The item of the client-side cart: \<^verbatim>\<open>{id, product_id, quantity, product}\<close>. The
  interface declares \<^verbatim>\<open>product: Product\<close>, but \<^verbatim>\<open>refreshCart\<close> fills it with
  \<^verbatim>\<open>item.product!\<close>, an assertion the compiler erases, so at run time the field holds
  whatever the store returned, null included. The product and the quantity are kept as
  the decimals of the answer; they become numbers where they are read. The field
  \<^verbatim>\<open>total\<close> of the state is named \<open>cart_total\<close> here.
\<close>

record cart_line =
  line_id :: uuid
  line_product_id :: uuid
  line_quantity :: int
  line_product :: "product option"

record cart_state =
  items :: "cart_line list"
  cart_total :: number
  itemCount :: number
  loading :: bool

datatype toast = ToastSuccess string | ToastError string

text \<open>What the provider's functions close over and act on: the store, the \<^verbatim>\<open>user\<close> of
  \<^verbatim>\<open>useAuth()\<close>, the state of \<^verbatim>\<open>useState\<close>, and the toasts shown so far.\<close>

record world =
  store :: backend
  user :: "uuid option"
  state :: cart_state
  toasts :: "toast list"

datatype js_error = TypeError

text \<open>\<^verbatim>\<open>items.reduce((sum, item) => sum + (item.product.price * item.quantity), 0)\<close>:
  reading \<^verbatim>\<open>price\<close> of a null product throws a TypeError. Then
  \<^verbatim>\<open>items.reduce((sum, item) => sum + item.quantity, 0)\<close>.\<close>

fun reduce_total :: "cart_line list \<Rightarrow> number \<Rightarrow> js_error + number" where
  "reduce_total [] acc = Inr acc"
| "reduce_total (item # rest) acc =
     (case line_product item of
        None \<Rightarrow> Inl TypeError
      | Some p \<Rightarrow>
          reduce_total rest
            (js_add acc (js_mul (from_json (price p)) (from_json (of_int (line_quantity item))))))"

fun reduce_count :: "cart_line list \<Rightarrow> number \<Rightarrow> number" where
  "reduce_count [] acc = acc"
| "reduce_count (item # rest) acc =
     reduce_count rest (js_add acc (from_json (of_int (line_quantity item))))"

definition calculateTotals :: "cart_line list \<Rightarrow> js_error + (number \<times> number)" where
  "calculateTotals its =
     (case reduce_total its (Finite 0) of
        Inl e \<Rightarrow> Inl e
      | Inr t \<Rightarrow> Inr (t, reduce_count its (Finite 0)))"

definition transform :: "cart_item \<Rightarrow> cart_line" where
  "transform item =
     \<lparr>line_id = cid item, line_product_id = product_id item,
      line_quantity = quantity item, line_product = product item\<rparr>"

text \<open>\<^verbatim>\<open>refreshCart\<close> awaits \<^verbatim>\<open>cart.getItems\<close> and then works on what it returned.
  \<open>refreshCart_after_fetch\<close> is the part after the await: the mapping of the items, the
  totals, and either the new state or the \<^verbatim>\<open>catch\<close> branch, which is entered by the
  TypeError of \<^verbatim>\<open>calculateTotals\<close> (\<^verbatim>\<open>cart.getItems\<close> itself never throws).\<close>

definition refreshCart_after_fetch :: "cart_item list \<Rightarrow> world \<Rightarrow> world" where
  "refreshCart_after_fetch cartItems w =
     (let transformedItems = map transform cartItems
      in case calculateTotals transformedItems of
           Inr (t, c) \<Rightarrow>
             w\<lparr>state := \<lparr>items = transformedItems, cart_total = t,
                          itemCount = c, loading = False\<rparr>\<rparr>
         | Inl e \<Rightarrow>
             w\<lparr>toasts := toasts w @ [ToastError ''Failed to load cart''],
                state := (state w)\<lparr>loading := False\<rparr>\<rparr>)"

definition refreshCart :: "world \<Rightarrow> world" where
  "refreshCart w =
     (case user w of
        None \<Rightarrow> w\<lparr>state := (state w)\<lparr>items := [], cart_total := Finite 0, itemCount := Finite 0\<rparr>\<rparr>
      | Some u \<Rightarrow>
          (let w1 = w\<lparr>state := (state w)\<lparr>loading := True\<rparr>\<rparr>;
               (b', cartItems) = cart_getItems (store w1) u
           in refreshCart_after_fetch cartItems (w1\<lparr>store := b'\<rparr>)))"

text \<open>The four mutating functions. Each awaits the helper and then \<^verbatim>\<open>refreshCart\<close>
  inside a \<^verbatim>\<open>try\<close>; as the helpers resolve to \<^verbatim>\<open>{data, error}\<close> and never throw, the
  \<^verbatim>\<open>catch\<close> branches cannot be entered and the success toast follows in every case.
  (The success toast of \<^verbatim>\<open>addToCart\<close> is prefixed with the product's title in the
  source.)\<close>

definition addToCart :: "world \<Rightarrow> product \<Rightarrow> int \<Rightarrow> world" where
  "addToCart w p qty =
     (case user w of
        None \<Rightarrow> w\<lparr>toasts := toasts w @ [ToastError ''Please log in to add items to cart'']\<rparr>
      | Some u \<Rightarrow>
          (let (b', r) = cart_addItem (store w) u (pid p) qty;
               w' = refreshCart (w\<lparr>store := b'\<rparr>)
           in w'\<lparr>toasts := toasts w' @ [ToastSuccess ''added to cart'']\<rparr>))"

definition removeFromCart :: "world \<Rightarrow> uuid \<Rightarrow> world" where
  "removeFromCart w itemId =
     (case user w of
        None \<Rightarrow> w
      | Some u \<Rightarrow>
          (let (b', r) = cart_removeItem (store w) itemId;
               w' = refreshCart (w\<lparr>store := b'\<rparr>)
           in w'\<lparr>toasts := toasts w' @ [ToastSuccess ''Item removed from cart'']\<rparr>))"

definition updateQuantity :: "world \<Rightarrow> uuid \<Rightarrow> int \<Rightarrow> world" where
  "updateQuantity w itemId qty =
     (case user w of
        None \<Rightarrow> w
      | Some u \<Rightarrow>
          (let (b', r) = cart_updateQuantity (store w) itemId qty
           in refreshCart (w\<lparr>store := b'\<rparr>)))"

definition clearCart :: "world \<Rightarrow> world" where
  "clearCart w =
     (case user w of
        None \<Rightarrow> w
      | Some u \<Rightarrow>
          (let (b', r) = cart_clearCart (store w) u;
               w' = refreshCart (w\<lparr>store := b'\<rparr>)
           in w'\<lparr>toasts := toasts w' @ [ToastSuccess ''Cart cleared'']\<rparr>))"

section \<open>Checkout\<close>

text \<open>
  \<^verbatim>\<open>App.tsx\<close> routes \<^verbatim>\<open>/checkout\<close> to \<^verbatim>\<open>pages/Checkout\<close>, whose code is not at
  hand; of the order path only \<^verbatim>\<open>orders.create\<close> (a plain insert) is. The definitions
  of this section follow section 4.2 of the specification and call the helpers modelled
  above.
\<close>

text \<open>Modelled from the spec: the error taxonomy of section 7, as far as checkout raises
  it; \<open>StoreFailed\<close> stands for "a failed network call surfaces as a single terminal error
  per operation".\<close>

datatype engine_error =
    Unauthenticated
  | ValidationError
  | EmptyCart
  | StoreFailed pg_error

text \<open>Modelled from the spec: the snapshot of step 4 of createOrder, taken "from the
  filtered lines", that is the lines "whose resolved product is currently active", each
  entry "capturing product title and price at this instant".\<close>

fun snapshot :: "cart_line list \<Rightarrow> order_item list" where
  "snapshot [] = []"
| "snapshot (l # ls) =
     (case line_product l of
        None \<Rightarrow> snapshot ls
      | Some p \<Rightarrow>
          if is_active p
          then \<lparr>item_product_id = line_product_id l, item_title = name p,
                item_price = price p, item_quantity = line_quantity l\<rparr> # snapshot ls
          else snapshot ls)"

text \<open>Modelled from the spec: \<^verbatim>\<open>createOrder(user, shippingAddress)\<close> of
  \<^verbatim>\<open>pages/Checkout\<close>, which is missing. Preconditions: user authenticated (else
  \<^verbatim>\<open>Unauthenticated\<close>), shipping address present and structurally valid (else
  \<^verbatim>\<open>ValidationError\<close>; which sub-fields are required is not given, so the check is the
  parameter \<open>valid_address\<close>). Steps: read the current CartView; recompute the total
  from its lines; fail with \<^verbatim>\<open>EmptyCart\<close> if no line remains after filtering for active
  products (an empty view fails the same way); persist one order with status pending, the
  computed total and the snapshot; on success clear the user's cart lines and refresh the
  view. A failed insert
  is surfaced as the operation's error; a failed clearing leaves the order in place. The
  result is the error, or \<open>None\<close> on success.\<close>

definition createOrder ::
  "(string \<Rightarrow> bool) \<Rightarrow> world \<Rightarrow> string option \<Rightarrow> world \<times> engine_error option" where
  "createOrder valid_address w shippingAddress =
     (case user w of
        None \<Rightarrow> (w, Some Unauthenticated)
      | Some u \<Rightarrow>
          (case shippingAddress of
             None \<Rightarrow> (w, Some ValidationError)
           | Some a \<Rightarrow>
               if \<not> valid_address a then (w, Some ValidationError)
               else (let lines = snapshot (items (state w));
                         t = sum_list (map (\<lambda>i. item_price i * of_int (item_quantity i)) lines)
                     in if lines = [] then (w, Some EmptyCart)
                        else (let (b1, r) = orders_create (store w)
                                     \<lparr>order_user_id = u, order_products = lines, order_total = t,
                                      status = Pending, shipping_address = Some a\<rparr>
                              in case error r of
                                   Some e \<Rightarrow> (w\<lparr>store := b1\<rparr>, Some (StoreFailed e))
                                 | None \<Rightarrow>
                                     (let (b2, r2) = cart_clearCart b1 u
                                      in (refreshCart (w\<lparr>store := b2\<rparr>), None))))))"

section \<open>The specification's own words, for comparison\<close>


text \<open>The derived totals as the specification words them, in exact decimals: the total
  over the lines whose resolved product is currently active, the item count over all
  lines.\<close>

definition line_active :: "cart_line \<Rightarrow> bool" where
  "line_active l = (case line_product l of None \<Rightarrow> False | Some p \<Rightarrow> is_active p)"

definition line_amount :: "cart_line \<Rightarrow> rat" where
  "line_amount l =
     (case line_product l of None \<Rightarrow> 0 | Some p \<Rightarrow> price p * of_int (line_quantity l))"

definition spec_total :: "cart_line list \<Rightarrow> rat" where
  "spec_total its = sum_list (map line_amount (filter line_active its))"

definition spec_itemCount :: "cart_line list \<Rightarrow> int" where
  "spec_itemCount its = sum_list (map line_quantity its)"

text \<open>A line whose product resolved, and the view the specification's refresh would
  publish from the fetched lines: only those with a resolved product.\<close>

definition resolved :: "cart_line \<Rightarrow> bool" where
  "resolved l = (line_product l \<noteq> None)"

definition spec_refresh_items :: "cart_line list \<Rightarrow> cart_line list" where
  "spec_refresh_items fetched = filter resolved fetched"

text \<open>What the code reads of one line: the product of price and quantity, and the
  quantity, as numbers; and a line with the active flag of its product set.\<close>

definition js_amount :: "cart_line \<Rightarrow> number" where
  "js_amount l =
     (case line_product l of
        None \<Rightarrow> NaN
      | Some p \<Rightarrow> js_mul (from_json (price p)) (from_json (of_int (line_quantity l))))"

definition js_quantity :: "cart_line \<Rightarrow> number" where
  "js_quantity l = from_json (of_int (line_quantity l))"

definition with_active :: "bool \<Rightarrow> cart_line \<Rightarrow> cart_line" where
  "with_active a l = l\<lparr>line_product := map_option (\<lambda>p. p\<lparr>is_active := a\<rparr>) (line_product l)\<rparr>"

section \<open>Sample data\<close>

text \<open>Two active products with the prices of the specification's example, and one that
  an administrator has deactivated.\<close>

definition mug :: product where
  "mug = \<lparr>pid = 1, name = ''Mug'', price = 249, stock = 10, is_active = True\<rparr>"

definition pen :: product where
  "pen = \<lparr>pid = 2, name = ''Pen'', price = 45, stock = 5, is_active = True\<rparr>"

definition cap :: product where
  "cap = \<lparr>pid = 3, name = ''Cap'', price = 10, stock = 0, is_active = False\<rparr>"

text \<open>The store as the session of customer 7 sees it, with an empty cart.\<close>

definition shop :: backend where
  "shop = \<lparr>products = [mug, pen, cap], cart_items = [], orders = [],
           auth_uid = Some 7, reachable = True, requests = []\<rparr>"

text \<open>The same store holding a line of two mugs for customer 7, and with a second
  line for the deactivated cap.\<close>

definition shop_mug_cart :: backend where
  "shop_mug_cart = shop\<lparr>cart_items := [\<lparr>cid = 1, user_id = 7, product_id = 1, quantity = 2\<rparr>]\<rparr>"

definition shop_with_cart :: backend where
  "shop_with_cart =
     shop\<lparr>cart_items := [\<lparr>cid = 1, user_id = 7, product_id = 1, quantity = 2\<rparr>,
                          \<lparr>cid = 2, user_id = 7, product_id = 3, quantity = 1\<rparr>]\<rparr>"

text \<open>Another session of the same customer commits a line while this one is between
  two awaits.\<close>

definition other_session_adds :: "uuid \<Rightarrow> uuid \<Rightarrow> int \<Rightarrow> backend \<Rightarrow> backend" where
  "other_session_adds u p q b =
     b\<lparr>cart_items := cart_items b @
          [\<lparr>cid = fresh_id (map cid (cart_items b)), user_id = u, product_id = p, quantity = q\<rparr>]\<rparr>"

text \<open>The store as the session of administrator 9 sees it, with a cancelled and a pending
  order of customer 7.\<close>

definition back_office :: backend where
  "back_office =
     \<lparr>products = [mug, pen, cap], cart_items = [],
      orders = [\<lparr>order_user_id = 7,
                 order_products = [\<lparr>item_product_id = 2, item_title = ''Pen'',
                                    item_price = 45, item_quantity = 1\<rparr>],
                 order_total = 45, status = Cancelled,
                 shipping_address = Some ''1 Main Road'', oid = 1\<rparr>,
                \<lparr>order_user_id = 7,
                 order_products = [\<lparr>item_product_id = 1, item_title = ''Mug'',
                                    item_price = 249, item_quantity = 2\<rparr>],
                 order_total = 498, status = Pending,
                 shipping_address = Some ''1 Main Road'', oid = 2\<rparr>],
      auth_uid = Some 9, reachable = True, requests = []\<rparr>"

text \<open>Rows as a select with the embedded product answers them: the mug line, and the cap
  line with a product the session cannot see.\<close>

definition mug_item :: cart_item where
  "mug_item = \<lparr>cid = 1, user_id = 7, product_id = 1, quantity = 2, product = Some mug\<rparr>"

definition cap_item_unresolved :: cart_item where
  "cap_item_unresolved = \<lparr>cid = 2, user_id = 7, product_id = 3, quantity = 1, product = None\<rparr>"

text \<open>The lines of a view, and worlds of the cart context for customer 7.\<close>

definition mug_line :: cart_line where
  "mug_line = \<lparr>line_id = 1, line_product_id = 1, line_quantity = 2, line_product = Some mug\<rparr>"

definition pen_line :: cart_line where
  "pen_line = \<lparr>line_id = 3, line_product_id = 2, line_quantity = 1, line_product = Some pen\<rparr>"

definition cap_line :: cart_line where
  "cap_line = \<lparr>line_id = 2, line_product_id = 3, line_quantity = 1, line_product = Some cap\<rparr>"

definition empty_view :: cart_state where
  "empty_view = \<lparr>items = [], cart_total = Finite 0, itemCount = Finite 0, loading = False\<rparr>"

definition mug_view :: cart_state where
  "mug_view = \<lparr>items = [mug_line], cart_total = Finite 498, itemCount = Finite 2, loading = False\<rparr>"

definition online_session :: world where
  "online_session = \<lparr>store = shop_mug_cart, user = Some 7, state = empty_view, toasts = []\<rparr>"

definition fresh_session :: world where
  "fresh_session = \<lparr>store = shop_with_cart, user = Some 7, state = empty_view, toasts = []\<rparr>"

definition offline_session :: world where
  "offline_session =
     \<lparr>store = shop_mug_cart\<lparr>reachable := False\<rparr>, user = Some 7, state = mug_view, toasts = []\<rparr>"

definition signed_out :: world where
  "signed_out = \<lparr>store = shop_with_cart\<lparr>auth_uid := None\<rparr>, user = None,
                 state = empty_view, toasts = []\<rparr>"

text \<open>Customer 7 with a view that still lists the mugs and the cap, and with a view whose
  only line is the cap, which is not active.\<close>

definition stale_session :: world where
  "stale_session =
     \<lparr>store = shop_with_cart, user = Some 7,
      state = \<lparr>items = [mug_line, cap_line], cart_total = Finite 508, itemCount = Finite 3,
               loading = False\<rparr>,
      toasts = []\<rparr>"

definition cap_session :: world where
  "cap_session =
     \<lparr>store = shop\<lparr>cart_items := [\<lparr>cid = 2, user_id = 7, product_id = 3, quantity = 1\<rparr>]\<rparr>,
      user = Some 7,
      state = \<lparr>items = [cap_line], cart_total = Finite 10, itemCount = Finite 1, loading = False\<rparr>,
      toasts = []\<rparr>"

text \<open>The same customer at checkout, the view holding the cap and one pen.\<close>

definition checkout_session :: world where
  "checkout_session =
     \<lparr>store = shop\<lparr>cart_items := [\<lparr>cid = 2, user_id = 7, product_id = 3, quantity = 1\<rparr>,
                                    \<lparr>cid = 3, user_id = 7, product_id = 2, quantity = 1\<rparr>]\<rparr>,
      user = Some 7,
      state = \<lparr>items = [cap_line, pen_line], cart_total = Finite 55, itemCount = Finite 2,
               loading = False\<rparr>,
      toasts = []\<rparr>"

lemmas sample_defs = mug_def pen_def cap_def shop_def shop_mug_cart_def shop_with_cart_def
  back_office_def mug_item_def cap_item_unresolved_def mug_line_def pen_line_def cap_line_def
  empty_view_def mug_view_def online_session_def fresh_session_def offline_session_def
  signed_out_def stale_session_def cap_session_def checkout_session_def other_session_adds_def

section \<open>Basic facts about the store\<close>

lemma le_foldr_max: "x \<in> set ids \<Longrightarrow> x \<le> foldr max ids (0::nat)"
  by (induction ids) (auto simp: max_def)

lemma fresh_id_notin: "fresh_id ids \<notin> set ids"
proof
  assume "fresh_id ids \<in> set ids"
  then have "fresh_id ids \<le> foldr max ids 0" by (rule le_foldr_max)
  then show False by (simp add: fresh_id_def)
qed

lemma filter_fresh_cid: "filter (\<lambda>r. cid r = fresh_id (map cid rows)) rows = []"
proof -
  have "\<forall>r \<in> set rows. cid r \<noteq> fresh_id (map cid rows)"
    using fresh_id_notin [of "map cid rows"] by force
  then show ?thesis by (simp add: filter_empty_conv)
qed

lemma map_fresh_cid_id:
  "map (\<lambda>x. if cid x = fresh_id (map cid rows) then f x else x) rows = rows"
proof -
  have "\<forall>r \<in> set rows. cid r \<noteq> fresh_id (map cid rows)"
    using fresh_id_notin [of "map cid rows"] by force
  then show ?thesis by (simp add: map_idI)
qed


lemma sent_simps:
  "products (sent r b) = products b" "cart_items (sent r b) = cart_items b"
  "orders (sent r b) = orders b" "auth_uid (sent r b) = auth_uid b"
  "reachable (sent r b) = reachable b"
  "requests (sent r b) = requests b @ [r]"
  by (simp_all add: sent_def)

lemma cart_policy_sent: "cart_policy (sent r b) = cart_policy b"
  by (simp add: cart_policy_def fun_eq_iff sent_simps)

text \<open>No query changes the session or the reachability of the store.\<close>

lemma insert_cart_line_frame:
  "reachable (fst (insert_cart_line b u p q)) = reachable b"
  "auth_uid (fst (insert_cart_line b u p q)) = auth_uid b"
  by (simp_all add: insert_cart_line_def Let_def sent_simps)

lemma update_cart_quantity_frame:
  "reachable (fst (update_cart_quantity b i q)) = reachable b"
  "auth_uid (fst (update_cart_quantity b i q)) = auth_uid b"
  by (simp_all add: update_cart_quantity_def Let_def sent_simps split: list.splits)

lemma cart_addItem_frame:
  "reachable (fst (cart_addItem b u p q)) = reachable b"
  "auth_uid (fst (cart_addItem b u p q)) = auth_uid b"
  by (simp_all add: cart_addItem_def cart_addItem_racing_def select_cart_line_def
      insert_cart_line_frame update_cart_quantity_frame sent_simps split: option.splits)

subsection \<open>The two branches of addItem\<close>

text \<open>No line for the pair: the lookup finds nothing and the insert adds a line.\<close>

lemma addItem_first:
  assumes "reachable b" "auth_uid b = Some u" "p \<in> set (map pid (products b))"
    and "filter (\<lambda>r. user_id r = u \<and> product_id r = p) (cart_items b) = []"
    and "0 < n" "n \<le> 2147483647"
  shows "cart_addItem b u p n =
      ((sent (InsertCartLine u p n) (sent (SelectCartLine u p) b))
         \<lparr>cart_items := cart_items b @
            [\<lparr>cid = fresh_id (map cid (cart_items b)), user_id = u, product_id = p, quantity = n\<rparr>]\<rparr>,
       ok \<lparr>cid = fresh_id (map cid (cart_items b)), user_id = u, product_id = p, quantity = n\<rparr>)"
proof -
  have none: "filter (\<lambda>r. user_id r = u \<and> product_id r = p)
                (filter (cart_policy b) (cart_items b)) = []"
    using assms(4) by (simp add: filter_empty_conv)
  show ?thesis
    using assms none
    by (simp add: cart_addItem_def cart_addItem_racing_def select_cart_line_def
        insert_cart_line_def Let_def sent_simps failed_def int4_def)
qed

text \<open>One line for the pair: the lookup finds it and the update adds to its quantity.\<close>

lemma addItem_existing:
  assumes "reachable b" "auth_uid b = Some u"
    and "filter (\<lambda>r. user_id r = u \<and> product_id r = p) (cart_items b) = [r]"
    and "filter (\<lambda>x. cid x = cid r) (cart_items b) = [r]"
    and "0 < quantity r + n" "quantity r + n \<le> 2147483647"
  shows "snd (cart_addItem b u p n) = ok (r\<lparr>quantity := quantity r + n\<rparr>)
       \<and> cart_items (fst (cart_addItem b u p n)) =
           map (\<lambda>x. if cid x = cid r then x\<lparr>quantity := quantity r + n\<rparr> else x) (cart_items b)"
proof -
  have rin: "r \<in> set (filter (\<lambda>r. user_id r = u \<and> product_id r = p) (cart_items b))"
    using assms(3) by simp
  then have own: "user_id r = u" by simp
  have pol: "\<And>x. x \<in> set (cart_items b) \<Longrightarrow> cid x = cid r \<Longrightarrow> cart_policy b x"
  proof -
    fix x assume "x \<in> set (cart_items b)" "cid x = cid r"
    then have "x \<in> set (filter (\<lambda>x. cid x = cid r) (cart_items b))" by simp
    with assms(4) have "x = r" by simp
    with own assms(2) show "cart_policy b x" by (simp add: cart_policy_def)
  qed
  have sel: "filter (\<lambda>r. user_id r = u \<and> product_id r = p)
               (filter (cart_policy b) (cart_items b)) = [r]"
  proof -
    have "filter (\<lambda>r. user_id r = u \<and> product_id r = p) (filter (cart_policy b) (cart_items b))
        = filter (cart_policy b) (filter (\<lambda>r. user_id r = u \<and> product_id r = p) (cart_items b))"
      by (simp add: conj_commute)
    then show ?thesis using assms(2,3) own by (simp add: cart_policy_def)
  qed
  have vis: "filter (\<lambda>x. cid x = cid r) (filter (cart_policy b) (cart_items b)) = [r]"
  proof -
    have "filter (\<lambda>x. cid x = cid r) (filter (cart_policy b) (cart_items b))
        = filter (cart_policy b) (filter (\<lambda>x. cid x = cid r) (cart_items b))"
      by (simp add: conj_commute)
    then show ?thesis using assms(2,4) own by (simp add: cart_policy_def)
  qed
  have m: "map (\<lambda>x. if cid x = cid r \<and> cart_policy b x
                    then x\<lparr>quantity := quantity r + n\<rparr> else x) (cart_items b)
         = map (\<lambda>x. if cid x = cid r then x\<lparr>quantity := quantity r + n\<rparr> else x) (cart_items b)"
    using pol by (intro map_cong) auto
  show ?thesis
    using assms(1,5,6) sel vis m
    by (simp add: cart_addItem_def cart_addItem_racing_def select_cart_line_def
        update_cart_quantity_def Let_def sent_simps cart_policy_sent ok_def int4_def)
qed

section \<open>Adding to the cart\<close>

text \<open>
  C1: two successive adds of the same product by the same user, with nothing in between,
  leave exactly one cart line for the pair, and its quantity is the sum of the two
  quantities: the second add increments the line that the first one created. The store is
  reachable, its session is the user's, the product exists, the cart has no line for the
  pair before the first add, and the quantities are positive and within the range of the
  \<^verbatim>\<open>integer\<close> column. Both calls succeed, and every other line is left as it was.
\<close>

theorem addItem_twice_one_line:
  assumes "reachable b" "auth_uid b = Some u" "p \<in> set (map pid (products b))"
    and "filter (\<lambda>r. user_id r = u \<and> product_id r = p) (cart_items b) = []"
    and "0 < n1" "0 < n2" "n1 + n2 \<le> 2147483647"
  shows "error (snd (cart_addItem b u p n1)) = None
       \<and> error (snd (cart_addItem (fst (cart_addItem b u p n1)) u p n2)) = None
       \<and> cart_items (fst (cart_addItem (fst (cart_addItem b u p n1)) u p n2))
           = cart_items b @ [\<lparr>cid = fresh_id (map cid (cart_items b)), user_id = u,
                               product_id = p, quantity = n1 + n2\<rparr>]
       \<and> map quantity (filter (\<lambda>r. user_id r = u \<and> product_id r = p)
            (cart_items (fst (cart_addItem (fst (cart_addItem b u p n1)) u p n2)))) = [n1 + n2]"
proof -
  define r1 where "r1 = \<lparr>cid = fresh_id (map cid (cart_items b)), user_id = u,
                          product_id = p, quantity = n1\<rparr>"
  define b1 where "b1 = fst (cart_addItem b u p n1)"
  have n1: "n1 \<le> 2147483647" using assms(6,7) by simp
  have first: "cart_addItem b u p n1 =
      ((sent (InsertCartLine u p n1) (sent (SelectCartLine u p) b))
         \<lparr>cart_items := cart_items b @ [r1]\<rparr>, ok r1)"
    unfolding r1_def by (rule addItem_first [OF assms(1-5) n1])
  have e1: "error (snd (cart_addItem b u p n1)) = None"
    by (simp add: first ok_def)
  have items1: "cart_items b1 = cart_items b @ [r1]"
    by (simp add: b1_def first)
  have up1: "reachable b1" "auth_uid b1 = Some u"
    using assms(1,2) by (simp_all add: b1_def cart_addItem_frame)
  have pair1: "filter (\<lambda>r. user_id r = u \<and> product_id r = p) (cart_items b1) = [r1]"
    using assms(4) by (simp add: items1 r1_def)
  have key1: "filter (\<lambda>x. cid x = cid r1) (cart_items b1) = [r1]"
    using filter_fresh_cid [of "cart_items b"] by (simp add: items1 r1_def)
  have q1: "0 < quantity r1 + n2" "quantity r1 + n2 \<le> 2147483647"
    using assms(5,6,7) by (simp_all add: r1_def)
  note second = addItem_existing [OF up1 pair1 key1 q1]
  have e2: "error (snd (cart_addItem b1 u p n2)) = None"
    using second by (simp add: ok_def)
  have items2: "cart_items (fst (cart_addItem b1 u p n2))
      = cart_items b @ [\<lparr>cid = fresh_id (map cid (cart_items b)), user_id = u,
                          product_id = p, quantity = n1 + n2\<rparr>]"
    using second
      map_fresh_cid_id [where f = "\<lambda>x. x\<lparr>quantity := quantity r1 + n2\<rparr>" and rows = "cart_items b"]
    by (simp add: items1 r1_def)
  have one: "map quantity (filter (\<lambda>r. user_id r = u \<and> product_id r = p)
      (cart_items (fst (cart_addItem b1 u p n2)))) = [n1 + n2]"
    using assms(4) by (simp add: items2)
  from e1 e2 items2 one show ?thesis unfolding b1_def by simp
qed

text \<open>Customer 7 adds two mugs and then three more to an empty cart: one line of five.\<close>

theorem addItem_twice_one_line_witness:
  "reachable shop \<and> auth_uid shop = Some 7 \<and> 1 \<in> set (map pid (products shop))
   \<and> filter (\<lambda>r. user_id r = 7 \<and> product_id r = 1) (cart_items shop) = []
   \<and> map quantity (filter (\<lambda>r. user_id r = 7 \<and> product_id r = 1)
        (cart_items (fst (cart_addItem (fst (cart_addItem shop 7 1 2)) 7 1 3)))) = [5]
   \<and> cart_items (fst (cart_addItem (fst (cart_addItem shop 7 1 2)) 7 1 3))
        = [\<lparr>cid = 1, user_id = 7, product_id = 1, quantity = 5\<rparr>]"
  using addItem_twice_one_line [of shop 7 1 2 3]
  by (simp add: shop_def mug_def pen_def cap_def fresh_id_def)

text \<open>When the cart already holds a line for the pair, the two adds increment that line
  and it stays the only one.\<close>

lemma addItem_twice_existing_line:
  assumes "reachable b" "auth_uid b = Some u"
    and "filter (\<lambda>r. user_id r = u \<and> product_id r = p) (cart_items b) = [r]"
    and "filter (\<lambda>x. cid x = cid r) (cart_items b) = [r]"
    and "0 < quantity r" "0 < n1" "0 < n2" "quantity r + n1 + n2 \<le> 2147483647"
  shows "map quantity (filter (\<lambda>r. user_id r = u \<and> product_id r = p)
           (cart_items (fst (cart_addItem (fst (cart_addItem b u p n1)) u p n2))))
         = [quantity r + n1 + n2]"
proof -
  define upd where
    "upd = (\<lambda>x::cart_row. if cid x = cid r then x\<lparr>quantity := quantity r + n1\<rparr> else x)"
  define b1 where "b1 = fst (cart_addItem b u p n1)"
  define r' where "r' = r\<lparr>quantity := quantity r + n1\<rparr>"
  have q1: "0 < quantity r + n1" "quantity r + n1 \<le> 2147483647" using assms(5-8) by simp_all
  note first = addItem_existing [OF assms(1-4) q1]
  have items1: "cart_items b1 = map upd (cart_items b)"
    using first by (simp add: b1_def upd_def)
  have keep: "\<And>x. user_id (upd x) = user_id x" "\<And>x. product_id (upd x) = product_id x"
    "\<And>x. cid (upd x) = cid x"
    by (simp_all add: upd_def)
  have updr: "upd r = r'" by (simp add: upd_def r'_def)
  have pair1: "filter (\<lambda>r. user_id r = u \<and> product_id r = p) (cart_items b1) = [r']"
    using assms(3) by (simp add: items1 filter_map comp_def keep updr)
  have key1: "filter (\<lambda>x. cid x = cid r') (cart_items b1) = [r']"
    using assms(4) by (simp add: items1 filter_map comp_def keep updr r'_def)
  have up1: "reachable b1" "auth_uid b1 = Some u"
    using assms(1,2) by (simp_all add: b1_def cart_addItem_frame)
  have q2: "0 < quantity r' + n2" "quantity r' + n2 \<le> 2147483647"
    using assms(5-8) by (simp_all add: r'_def)
  note second = addItem_existing [OF up1 pair1 key1 q2]
  define upd2 where
    "upd2 = (\<lambda>x::cart_row. if cid x = cid r' then x\<lparr>quantity := quantity r' + n2\<rparr> else x)"
  have keep2: "\<And>x. user_id (upd2 x) = user_id x" "\<And>x. product_id (upd2 x) = product_id x"
    by (simp_all add: upd2_def)
  have "cart_items (fst (cart_addItem b1 u p n2)) = map upd2 (cart_items b1)"
    using second by (simp add: upd2_def)
  then have "filter (\<lambda>r. user_id r = u \<and> product_id r = p)
               (cart_items (fst (cart_addItem b1 u p n2))) = [upd2 r']"
    using pair1 by (simp add: filter_map comp_def keep2)
  then show ?thesis by (simp add: b1_def upd2_def r'_def)
qed

section \<open>Facts about numbers\<close>

lemma bits_pos:
  "0 < n \<Longrightarrow> 1 \<le> bits n \<and> 2 ^ nat (bits n - 1) \<le> n \<and> n < 2 ^ nat (bits n)"
proof (induction n rule: bits.induct)
  case (1 n)
  show ?case
  proof (cases "n = 1")
    case True
    then show ?thesis by (simp add: bits.simps [of 1] bits.simps [of 0])
  next
    case False
    with "1.prems" have h: "0 < n div 2" "\<not> n \<le> 0" by auto
    from "1.IH" [OF h(2) h(1)]
    have ih: "1 \<le> bits (n div 2)" "2 ^ nat (bits (n div 2) - 1) \<le> n div 2"
      "n div 2 < 2 ^ nat (bits (n div 2))" by auto
    have b: "bits n = 1 + bits (n div 2)" using h(2) by (subst bits.simps) simp
    have e1: "nat (bits n - 1) = Suc (nat (bits (n div 2) - 1))" using b ih(1) by simp
    have e2: "nat (bits n) = Suc (nat (bits (n div 2)))" using b ih(1) by simp
    have lo: "(2::int) ^ nat (bits n - 1) \<le> n"
    proof -
      have "(2::int) ^ nat (bits n - 1) = 2 * 2 ^ nat (bits (n div 2) - 1)" by (simp add: e1)
      also have "\<dots> \<le> 2 * (n div 2)" using ih(2) by simp
      also have "\<dots> \<le> n" by simp
      finally show ?thesis .
    qed
    have hi: "n < (2::int) ^ nat (bits n)"
    proof -
      have "n div 2 + 1 \<le> 2 ^ nat (bits (n div 2))" using ih(3) by simp
      then have "2 * (n div 2) + 2 \<le> 2 * 2 ^ nat (bits (n div 2))" by simp
      moreover have "n < 2 * (n div 2) + 2" by presburger
      ultimately show ?thesis by (simp add: e2)
    qed
    from b ih(1) lo hi show ?thesis by simp
  qed
qed

lemma bits_one: "bits 1 = 1"
  by (simp add: bits.simps [of 1] bits.simps [of 0])

lemma round_even_of_int: "round_even (of_int m) = m"
  by (simp add: round_even_def)

lemma ilog2_of_int:
  assumes "0 < n"
  shows "ilog2 (of_int n) = bits n - 1"
proof -
  from bits_pos [OF assms] have b: "1 \<le> bits n" "2 ^ nat (bits n - 1) \<le> n" by auto
  have "(2::rat) ^ nat (bits n - 1) = of_int (2 ^ nat (bits n - 1))" by simp
  also have "\<dots> \<le> of_int n" using b(2) by (simp only: of_int_le_iff)
  finally have "pow2 (bits n - 1) \<le> of_int n" using b(1) by (simp add: pow2_def)
  then show ?thesis by (simp add: ilog2_def bits_one)
qed

text \<open>Integers up to \<open>2^53\<close> are numbers as they are: rounding leaves them alone.\<close>

lemma round_pos_of_int_exact:
  assumes "0 < n" "n \<le> 2 ^ 53"
  shows "round_pos (of_int n) = Finite (of_int n)"
proof -
  from bits_pos [OF assms(1)]
  have b: "1 \<le> bits n" "2 ^ nat (bits n - 1) \<le> n" "n < 2 ^ nat (bits n)" by auto
  define k where "k = bits n - 1"
  have k0: "0 \<le> k" using b(1) by (simp add: k_def)
  have "(2::int) ^ nat k \<le> n" using b(2) by (simp add: k_def)
  then have le: "(2::int) ^ nat k \<le> 2 ^ 53" using assms(2) by (rule order_trans)
  have "nat k \<le> 53" by (rule power_le_imp_le_exp [OF _ le]) simp
  then have k53: "k \<le> 53" by simp
  have e: "ilog2 (of_int n) = k"
    using ilog2_of_int [OF assms(1)] by (simp add: k_def)
  show ?thesis
  proof (cases "k \<le> 52")
    case True
    have qe: "max (k - 52) (- 1074) = k - 52" using k0 by simp
    have p: "pow2 (k - 52) = 1 / 2 ^ nat (52 - k)"
    proof (cases "k = 52")
      case True then show ?thesis by (simp add: pow2_def)
    next
      case False with \<open>k \<le> 52\<close> show ?thesis by (simp add: pow2_def)
    qed
    have q: "(of_int n :: rat) / pow2 (k - 52) = of_int (n * 2 ^ nat (52 - k))"
      by (simp add: p)
    have r: "round_even ((of_int n :: rat) / pow2 (k - 52)) = n * 2 ^ nat (52 - k)"
      by (simp only: q round_even_of_int)
    have v: "(of_int (n * 2 ^ nat (52 - k)) :: rat) * pow2 (k - 52) = of_int n"
      by (simp add: p)
    show ?thesis
      using k0 k53 True
      by (simp add: round_pos_def Let_def e qe r v del: of_int_mult of_int_power)
  next
    case False
    with k53 have k: "k = 53" by simp
    have "(2::int) ^ 53 \<le> n" using b(2) k by (simp add: k_def)
    with assms(2) have n: "n = 2 ^ 53" by simp
    have r: "round_even ((of_int n :: rat) / pow2 1) = 2 ^ 52"
    proof -
      have "(of_int n :: rat) / pow2 1 = of_int (2 ^ 52)" by (simp add: n pow2_def)
      then show ?thesis by (simp only: round_even_of_int)
    qed
    show ?thesis
      by (simp add: round_pos_def Let_def e k r) (simp add: n pow2_def)
  qed
qed

lemma binary64_of_int_exact:
  assumes "\<bar>n\<bar> \<le> 2 ^ 53"
  shows "binary64 (of_int n) = Finite (of_int n)"
proof -
  consider "n = 0" | "0 < n" | "n < 0" by linarith
  then show ?thesis
  proof cases
    case 1
    then show ?thesis by (simp add: binary64_def)
  next
    case 2
    with assms have "n \<le> 2 ^ 53" by simp
    with 2 show ?thesis by (simp add: binary64_def round_pos_of_int_exact)
  next
    case 3
    with assms have m: "0 < - n" "- n \<le> 2 ^ 53" by simp_all
    have "round_pos (of_int (- n)) = Finite (of_int (- n))"
      by (rule round_pos_of_int_exact [OF m])
    then have "round_pos (- of_int n) = Finite (- of_int n)" by simp
    with 3 show ?thesis by (simp add: binary64_def)
  qed
qed

lemma binary64_small:
  "binary64 0 = Finite 0" "binary64 1 = Finite 1"
  "(numeral k :: int) \<le> 2 ^ 53 \<Longrightarrow> binary64 (numeral k) = Finite (numeral k)"
  using binary64_of_int_exact [of 0] binary64_of_int_exact [of 1]
    binary64_of_int_exact [of "numeral k"]
  by simp_all

lemma js_add_int:
  "\<bar>a + b\<bar> \<le> 2 ^ 53 \<Longrightarrow> js_add (Finite (of_int a)) (Finite (of_int b)) = Finite (of_int (a + b))"
  using binary64_of_int_exact [of "a + b"] by simp

lemma js_quantity_exact:
  "\<bar>line_quantity l\<bar> \<le> 2 ^ 53 \<Longrightarrow> js_quantity l = Finite (of_int (line_quantity l))"
  by (simp add: js_quantity_def from_json_def binary64_of_int_exact)

section \<open>Derived totals\<close>

lemma reduce_total_foldl:
  "list_all resolved its \<Longrightarrow> reduce_total its acc = Inr (foldl js_add acc (map js_amount its))"
  by (induction its arbitrary: acc) (auto simp: resolved_def js_amount_def)

lemma reduce_total_unresolved:
  "\<not> list_all resolved its \<Longrightarrow> reduce_total its acc = Inl TypeError"
  by (induction its arbitrary: acc) (auto simp: resolved_def split: option.splits)

lemma reduce_count_foldl: "reduce_count its acc = foldl js_add acc (map js_quantity its)"
  by (induction its arbitrary: acc) (auto simp: js_quantity_def)

lemma calculateTotals_resolved:
  "list_all resolved its \<Longrightarrow>
   calculateTotals its =
     Inr (foldl js_add (Finite 0) (map js_amount its), foldl js_add (Finite 0) (map js_quantity its))"
  by (simp add: calculateTotals_def reduce_total_foldl reduce_count_foldl)

lemma calculateTotals_unresolved:
  "\<not> list_all resolved its \<Longrightarrow> calculateTotals its = Inl TypeError"
  by (simp add: calculateTotals_def reduce_total_unresolved)

text \<open>Neither sum reads the active flag of a product.\<close>

lemma reduce_total_with_active:
  "reduce_total (map (with_active a) its) acc = reduce_total its acc"
  by (induction its arbitrary: acc) (auto simp: with_active_def split: option.splits)

lemma reduce_count_with_active:
  "reduce_count (map (with_active a) its) acc = reduce_count its acc"
  by (induction its arbitrary: acc) (auto simp: with_active_def)

text \<open>Quantities that are not negative and add up to at most \<open>2^53\<close> are counted
  exactly.\<close>

lemma count_exact:
  "list_all (\<lambda>l. 0 \<le> line_quantity l) its \<Longrightarrow> 0 \<le> a \<Longrightarrow>
   a + sum_list (map line_quantity its) \<le> 2 ^ 53 \<Longrightarrow>
   foldl js_add (Finite (of_int a)) (map js_quantity its)
     = Finite (of_int (a + sum_list (map line_quantity its)))"
proof (induction its arbitrary: a)
  case Nil
  then show ?case by simp
next
  case (Cons l its)
  from Cons.prems have q: "0 \<le> line_quantity l" and rest: "list_all (\<lambda>l. 0 \<le> line_quantity l) its"
    by simp_all
  have nn: "0 \<le> sum_list (map line_quantity its)"
    using rest by (induction its) auto
  from Cons.prems(3) q nn Cons.prems(2) have b1: "\<bar>line_quantity l\<bar> \<le> 2 ^ 53"
    and b2: "\<bar>a + line_quantity l\<bar> \<le> 2 ^ 53" by simp_all
  have step: "js_add (Finite (of_int a)) (js_quantity l) = Finite (of_int (a + line_quantity l))"
    by (simp only: js_quantity_exact [OF b1] js_add_int [OF b2])
  have "foldl js_add (Finite (of_int a)) (map js_quantity (l # its))
      = foldl js_add (Finite (of_int (a + line_quantity l))) (map js_quantity its)"
    by (simp add: step del: of_int_add)
  also have "\<dots> = Finite (of_int (a + line_quantity l + sum_list (map line_quantity its)))"
    using Cons.prems(2,3) q by (intro Cons.IH [OF rest]) simp_all
  finally show ?case by (simp add: add.assoc)
qed

text \<open>
  C2, as amended: for every list of lines whose products all resolved (every published
  cart view is one), the derived total is the sum of price times quantity over all the
  lines, whether their product is active or not, and the item count is the sum of the
  quantities over all the lines, both accumulated from left to right in the arithmetic
  of JavaScript numbers. Changing the active flag of the products changes neither. The
  item count is the exact sum of the quantities when they are not negative and add up to
  at most \<open>2^53\<close>.
\<close>

theorem calculateTotals_sums_every_line:
  assumes "list_all resolved its"
  shows "calculateTotals its =
           Inr (foldl js_add (Finite 0) (map js_amount its),
                foldl js_add (Finite 0) (map js_quantity its))
       \<and> calculateTotals (map (with_active a) its) = calculateTotals its
       \<and> (list_all (\<lambda>l. 0 \<le> line_quantity l) its \<and> sum_list (map line_quantity its) \<le> 2 ^ 53 \<longrightarrow>
            foldl js_add (Finite 0) (map js_quantity its) = Finite (of_int (spec_itemCount its)))"
proof (intro conjI impI)
  show "calculateTotals its =
          Inr (foldl js_add (Finite 0) (map js_amount its),
               foldl js_add (Finite 0) (map js_quantity its))"
    using assms by (rule calculateTotals_resolved)
  show "calculateTotals (map (with_active a) its) = calculateTotals its"
    by (simp add: calculateTotals_def reduce_total_with_active reduce_count_with_active
        split: sum.splits)
  assume "list_all (\<lambda>l. 0 \<le> line_quantity l) its \<and> sum_list (map line_quantity its) \<le> 2 ^ 53"
  then show "foldl js_add (Finite 0) (map js_quantity its) = Finite (of_int (spec_itemCount its))"
    using count_exact [of its 0] by (simp add: spec_itemCount_def)
qed

text \<open>The example of the specification: two mugs at 249.00 and one pen at 45.00, and the
  same lines with their products deactivated.\<close>

lemma totals_mug_pen: "calculateTotals [mug_line, pen_line] = Inr (Finite 543, Finite 3)"
  by (simp add: calculateTotals_def from_json_def binary64_small mug_line_def pen_line_def
      mug_def pen_def)

theorem calculateTotals_sums_every_line_witness:
  "list_all resolved [mug_line, pen_line]
   \<and> calculateTotals [mug_line, pen_line] = Inr (Finite 543, Finite 3)
   \<and> calculateTotals (map (with_active False) [mug_line, pen_line]) = Inr (Finite 543, Finite 3)
   \<and> Finite (of_int (spec_itemCount [mug_line, pen_line])) = Finite 3"
  using calculateTotals_sums_every_line [of "[mug_line, pen_line]" False] totals_mug_pen
  by (simp add: resolved_def spec_itemCount_def mug_line_def pen_line_def)

text \<open>C2 as stated fails: for a view of two mugs and one cap whose product is not active,
  \<^verbatim>\<open>calculateTotals\<close> gives 508, where the total over the active lines is 498.\<close>

theorem calculateTotals_counts_inactive_line:
  "calculateTotals [mug_line, cap_line] = Inr (Finite 508, Finite 3)
   \<and> \<not> line_active cap_line
   \<and> spec_total [mug_line, cap_line] = 498
   \<and> spec_itemCount [mug_line, cap_line] = 3"
  by (simp add: calculateTotals_def from_json_def binary64_small spec_total_def
      spec_itemCount_def line_active_def line_amount_def mug_line_def cap_line_def mug_def
      cap_def)

text \<open>The arithmetic is that of doubles: three items at 0.10 come to
  0.30000000000000004, which is \<open>1351079888211149 / 2^52\<close>, and not to 0.30.\<close>

lemma total_is_rounded:
  "calculateTotals
     [\<lparr>line_id = 1, line_product_id = 1, line_quantity = 3,
       line_product = Some \<lparr>pid = 1, name = ''Pin'', price = 1 / 10, stock = 1,
                             is_active = True\<rparr>\<rparr>]
   = Inr (Finite (1351079888211149 / 4503599627370496), Finite 3)"
  by code_simp

section \<open>Order status\<close>



section \<open>Refreshing the view\<close>


text \<open>
  C4, as amended: for an authenticated user, \<^verbatim>\<open>refreshCart\<close> requests the user's cart
  lines joined with their current products and works on the rows that
  \<^verbatim>\<open>cart.getItems\<close> hands it. When the product of every such row resolves, it publishes
  a fresh view that holds all of them, with the totals recomputed from them. It never
  discards a line: when the product of some row does not resolve, no fresh view is
  published and the items and totals stay as they were.
\<close>

theorem refreshCart_publishes_every_line:
  "(user w = Some u \<longrightarrow>
      refreshCart w =
        refreshCart_after_fetch (getItems_result (snd (select_cart_items (store w) u)))
          (w\<lparr>state := (state w)\<lparr>loading := True\<rparr>,
             store := fst (select_cart_items (store w) u)\<rparr>)
    \<and> requests (store (refreshCart w)) = requests (store w) @ [SelectCartItems u])
   \<and> (list_all resolved (map transform fetched) \<longrightarrow>
        state (refreshCart_after_fetch fetched w) =
          \<lparr>items = map transform fetched,
           cart_total = foldl js_add (Finite 0) (map js_amount (map transform fetched)),
           itemCount = foldl js_add (Finite 0) (map js_quantity (map transform fetched)),
           loading = False\<rparr>)
   \<and> (\<not> list_all resolved (map transform fetched) \<longrightarrow>
        items (state (refreshCart_after_fetch fetched w)) = items (state w)
      \<and> cart_total (state (refreshCart_after_fetch fetched w)) = cart_total (state w)
      \<and> itemCount (state (refreshCart_after_fetch fetched w)) = itemCount (state w))"
proof (intro conjI impI)
  assume u: "user w = Some u"
  then show "refreshCart w =
      refreshCart_after_fetch (getItems_result (snd (select_cart_items (store w) u)))
        (w\<lparr>state := (state w)\<lparr>loading := True\<rparr>, store := fst (select_cart_items (store w) u)\<rparr>)"
    by (simp add: refreshCart_def cart_getItems_def split_beta)
  from u show "requests (store (refreshCart w)) = requests (store w) @ [SelectCartItems u]"
    by (auto simp: refreshCart_def cart_getItems_def select_cart_items_def
        refreshCart_after_fetch_def sent_simps Let_def split: sum.splits)
next
  assume "list_all resolved (map transform fetched)"
  then show "state (refreshCart_after_fetch fetched w) =
      \<lparr>items = map transform fetched,
       cart_total = foldl js_add (Finite 0) (map js_amount (map transform fetched)),
       itemCount = foldl js_add (Finite 0) (map js_quantity (map transform fetched)),
       loading = False\<rparr>"
    by (simp add: refreshCart_after_fetch_def calculateTotals_resolved)
next
  assume "\<not> list_all resolved (map transform fetched)"
  then have t: "calculateTotals (map transform fetched) = Inl TypeError"
    by (rule calculateTotals_unresolved)
  show "items (state (refreshCart_after_fetch fetched w)) = items (state w)"
    by (simp add: refreshCart_after_fetch_def t)
  show "cart_total (state (refreshCart_after_fetch fetched w)) = cart_total (state w)"
    by (simp add: refreshCart_after_fetch_def t)
  show "itemCount (state (refreshCart_after_fetch fetched w)) = itemCount (state w)"
    by (simp add: refreshCart_after_fetch_def t)
qed

text \<open>An answer with the mug line, its product resolved, is published as the view of two
  mugs.\<close>

theorem refreshCart_publishes_every_line_witness:
  "list_all resolved (map transform [mug_item])
   \<and> state (refreshCart_after_fetch [mug_item] online_session) = mug_view
   \<and> user online_session = Some 7
   \<and> state (refreshCart online_session) = empty_view"
proof -
  have r: "list_all resolved (map transform [mug_item])"
    by (simp add: resolved_def transform_def mug_item_def)
  have a: "state (refreshCart_after_fetch [mug_item] online_session) = mug_view"
    using refreshCart_publishes_every_line [of online_session 7 "[mug_item]"] r
    by (simp add: transform_def mug_item_def mug_view_def mug_line_def mug_def js_amount_def
        js_quantity_def from_json_def binary64_small)
  have u: "user online_session = Some 7" by (simp add: online_session_def)
  have "state (refreshCart online_session) = empty_view"
    by (simp add: refreshCart_def cart_getItems_def select_cart_items_def getItems_result_def
        refreshCart_after_fetch_def calculateTotals_def policy_recursion_def failed_def
        sample_defs)
  with r a u show ?thesis by simp
qed

text \<open>C4 as stated fails. An answer holds the mug line and the cap line, whose product
  did not resolve: the view with only the resolved line would hold the mugs; the refresh
  publishes nothing, the view stays empty as it was and an error toast is shown. And
  against the store as it is, the mugs of customer 7, whose product exists and is
  active, are not in the refreshed view either: the select is refused and the view
  published is empty.\<close>

theorem refreshCart_unresolved_keeps_view:
  "map product [mug_item, cap_item_unresolved] = [Some mug, None]
   \<and> spec_refresh_items (map transform [mug_item, cap_item_unresolved]) = [mug_line]
   \<and> items (state fresh_session) = []
   \<and> items (state (refreshCart_after_fetch [mug_item, cap_item_unresolved] fresh_session)) = []
   \<and> toasts (refreshCart_after_fetch [mug_item, cap_item_unresolved] fresh_session)
       = [ToastError ''Failed to load cart'']
   \<and> map product_id (cart_items (store online_session)) = [1]
   \<and> state (refreshCart online_session) = empty_view"
  by (simp add: refreshCart_def cart_getItems_def select_cart_items_def getItems_result_def
      refreshCart_after_fetch_def calculateTotals_def policy_recursion_def failed_def
      transform_def spec_refresh_items_def resolved_def sample_defs)

section \<open>The race of addItem\<close>

text \<open>
  C5, as amended: when the lookup of \<^verbatim>\<open>cart.addItem\<close> finds no line and the insert then
  hits the unique constraint on (user, product), because another session added the line
  in between, \<^verbatim>\<open>addItem\<close> sends no further request: it returns the store's error result
  to its caller and the existing line keeps the quantity the other session gave it.
\<close>

theorem addItem_violation_not_retried:
  assumes "data (snd (select_cart_line b u p)) = None"
    and "reachable (between (sent (SelectCartLine u p) b))"
    and "auth_uid (between (sent (SelectCartLine u p) b)) = Some u"
    and "filter (\<lambda>r. user_id r = u \<and> product_id r = p)
           (cart_items (between (sent (SelectCartLine u p) b))) \<noteq> []"
    and "0 < q" "q \<le> 2147483647"
  shows "snd (cart_addItem_racing between b u p q) = failed UniqueViolation
       \<and> requests (fst (cart_addItem_racing between b u p q))
           = requests (between (sent (SelectCartLine u p) b)) @ [InsertCartLine u p q]
       \<and> cart_items (fst (cart_addItem_racing between b u p q))
           = cart_items (between (sent (SelectCartLine u p) b))"
  using assms
  by (simp add: cart_addItem_racing_def select_cart_line_def insert_cart_line_def Let_def
      sent_simps int4_def)

theorem addItem_violation_not_retried_witness:
  "data (snd (select_cart_line shop 7 1)) = None
   \<and> snd (cart_addItem_racing (other_session_adds 7 1 2) shop 7 1 3) = failed UniqueViolation
   \<and> requests (fst (cart_addItem_racing (other_session_adds 7 1 2) shop 7 1 3))
       = [SelectCartLine 7 1, InsertCartLine 7 1 3]
   \<and> cart_items (fst (cart_addItem_racing (other_session_adds 7 1 2) shop 7 1 3))
       = [\<lparr>cid = 1, user_id = 7, product_id = 1, quantity = 2\<rparr>]"
  using addItem_violation_not_retried [of shop 7 1 "other_session_adds 7 1 2" 3]
  by (simp add: shop_def other_session_adds_def select_cart_line_def sent_def failed_def
      fresh_id_def)

text \<open>C5 as stated fails: customer 7 adds three mugs while another session of the same
  customer commits a line of two. The insert is refused, the refusal is the result, the
  requests sent are the lookup and the insert and no update, and the line still holds
  two.\<close>

theorem addItem_race_surfaces_violation:
  "error (snd (cart_addItem_racing (other_session_adds 7 1 2) shop 7 1 3)) = Some UniqueViolation
   \<and> requests (fst (cart_addItem_racing (other_session_adds 7 1 2) shop 7 1 3))
       = [SelectCartLine 7 1, InsertCartLine 7 1 3]
   \<and> map quantity (cart_items (fst (cart_addItem_racing (other_session_adds 7 1 2) shop 7 1 3)))
       = [2]"
  by (simp add: cart_addItem_racing_def select_cart_line_def insert_cart_line_def Let_def
      sent_def failed_def int4_def sample_defs)

section \<open>Checkout of a cart with nothing to buy\<close>

lemma snapshot_none_active: "list_all (\<lambda>l. \<not> line_active l) ls \<Longrightarrow> snapshot ls = []"
  by (induction ls) (auto simp: line_active_def split: option.splits)

text \<open>
  C6: for an authenticated user and a valid shipping address, \<^verbatim>\<open>createOrder\<close> on a view
  in which no line has an active product fails with \<^verbatim>\<open>EmptyCart\<close> and returns the world
  as it was: no order is created, the cart lines are unchanged, no request is sent.
\<close>

theorem createOrder_all_inactive:
  assumes "user w = Some u" "valid_address a"
    and "list_all (\<lambda>l. \<not> line_active l) (items (state w))"
  shows "createOrder valid_address w (Some a) = (w, Some EmptyCart)
       \<and> orders (store (fst (createOrder valid_address w (Some a)))) = orders (store w)
       \<and> cart_items (store (fst (createOrder valid_address w (Some a)))) = cart_items (store w)
       \<and> requests (store (fst (createOrder valid_address w (Some a)))) = requests (store w)"
  using assms by (simp add: createOrder_def snapshot_none_active)

theorem createOrder_all_inactive_witness:
  "user cap_session = Some 7 \<and> ''1 Main Road'' \<noteq> []
   \<and> list_all (\<lambda>l. \<not> line_active l) (items (state cap_session))
   \<and> createOrder (\<lambda>a. a \<noteq> []) cap_session (Some ''1 Main Road'')
       = (cap_session, Some EmptyCart)"
  using createOrder_all_inactive [of cap_session 7 "\<lambda>a. a \<noteq> []" "''1 Main Road''"]
  by (simp add: cap_session_def cap_line_def cap_def line_active_def)

text \<open>With an active line in the view the modelled checkout reaches the store: the order
  it sends holds the snapshot of the pen only, at 45.00. The store refuses the insert,
  the refusal is surfaced, and the cart and the view stay as they were.\<close>

lemma createOrder_store_refuses:
  "snd (createOrder (\<lambda>a. a \<noteq> []) checkout_session (Some ''1 Main Road''))
     = Some (StoreFailed InfiniteRecursion)
   \<and> requests (store (fst (createOrder (\<lambda>a. a \<noteq> []) checkout_session (Some ''1 Main Road''))))
       = [InsertOrder \<lparr>order_user_id = 7,
                       order_products = [\<lparr>item_product_id = 2, item_title = ''Pen'',
                                          item_price = 45, item_quantity = 1\<rparr>],
                       order_total = 45, status = Pending,
                       shipping_address = Some ''1 Main Road''\<rparr>]
   \<and> orders (store (fst (createOrder (\<lambda>a. a \<noteq> []) checkout_session (Some ''1 Main Road''))))
       = []
   \<and> cart_items (store (fst (createOrder (\<lambda>a. a \<noteq> []) checkout_session (Some ''1 Main Road''))))
       = cart_items (store checkout_session)
   \<and> state (fst (createOrder (\<lambda>a. a \<noteq> []) checkout_session (Some ''1 Main Road'')))
       = state checkout_session"
  by (simp add: createOrder_def checkout_session_def orders_create_def insert_order_def
      policy_recursion_def Let_def sent_def failed_def sample_defs)

text \<open>\<^verbatim>\<open>orders.create\<close> on its own sends the order it is given and reads no cart; on the
  policies as written no session gets a row in.\<close>

lemma orders_create_reads_no_cart:
  "requests (fst (orders_create b ord)) = requests b @ [InsertOrder ord]
   \<and> error (snd (orders_create b ord)) \<noteq> None
   \<and> orders (fst (orders_create b ord)) = orders b
   \<and> cart_items (fst (orders_create b ord)) = cart_items b"
  by (simp add: orders_create_def insert_order_def Let_def sent_simps failed_def)

section \<open>A store that cannot be reached\<close>

text \<open>When the fetch fails, \<^verbatim>\<open>cart.getItems\<close> returns the empty list, and
  \<^verbatim>\<open>refreshCart\<close> publishes it as the view.\<close>

lemma refreshCart_unreachable:
  assumes "user w = Some u" "\<not> reachable (store w)"
  shows "state (refreshCart w)
           = \<lparr>items = [], cart_total = Finite 0, itemCount = Finite 0, loading = False\<rparr>
       \<and> toasts (refreshCart w) = toasts w"
  using assms
  by (simp add: refreshCart_def cart_getItems_def select_cart_items_def getItems_result_def
      refreshCart_after_fetch_def failed_def calculateTotals_def)

text \<open>
  C7: the view of customer 7 holds two mugs, as last refreshed, and the store cannot be
  reached. The refresh replaces the view by the empty one and shows no error; adding a
  pen does the same and shows the success toast. The \<^verbatim>\<open>catch\<close> branch of
  \<^verbatim>\<open>refreshCart\<close>, which keeps the previous view, is not entered.
\<close>

theorem refreshCart_unreachable_empties_view:
  "state offline_session = mug_view
   \<and> state (refreshCart offline_session) = empty_view
   \<and> toasts (refreshCart offline_session) = []
   \<and> state (addToCart offline_session pen 1) = empty_view
   \<and> toasts (addToCart offline_session pen 1) = [ToastSuccess ''added to cart'']"
  by (simp add: refreshCart_def addToCart_def cart_addItem_def cart_addItem_racing_def
      select_cart_line_def insert_cart_line_def cart_getItems_def select_cart_items_def
      getItems_result_def refreshCart_after_fetch_def failed_def calculateTotals_def
      sample_defs sent_def Let_def)

section \<open>Changing and removing lines\<close>




text \<open>
  C9: \<^verbatim>\<open>cart.removeItem\<close> is idempotent. With the store reachable, removing a line twice
  succeeds both times and the second call leaves the tables as the first left them; and
  removing a line that is not there succeeds and changes no cart line.
\<close>

theorem removeItem_idempotent:
  assumes "reachable b"
  shows "error (snd (cart_removeItem b i)) = None
       \<and> error (snd (cart_removeItem (fst (cart_removeItem b i)) i)) = None
       \<and> cart_items (fst (cart_removeItem (fst (cart_removeItem b i)) i))
           = cart_items (fst (cart_removeItem b i))
       \<and> products (fst (cart_removeItem (fst (cart_removeItem b i)) i))
           = products (fst (cart_removeItem b i))
       \<and> orders (fst (cart_removeItem (fst (cart_removeItem b i)) i))
           = orders (fst (cart_removeItem b i))
       \<and> (i \<notin> set (map cid (cart_items b)) \<longrightarrow>
            error (snd (cart_removeItem b i)) = None
          \<and> cart_items (fst (cart_removeItem b i)) = cart_items b)"
  using assms
  apply (simp add: cart_removeItem_def delete_cart_line_def Let_def sent_simps ok_null_def
      cart_policy_def)
  apply (auto simp: filter_id_conv)
  done

theorem removeItem_idempotent_witness:
  "reachable shop_with_cart
   \<and> error (snd (cart_removeItem shop_with_cart 2)) = None
   \<and> error (snd (cart_removeItem (fst (cart_removeItem shop_with_cart 2)) 2)) = None
   \<and> map cid (cart_items (fst (cart_removeItem (fst (cart_removeItem shop_with_cart 2)) 2))) = [1]
   \<and> map cid (cart_items (fst (cart_removeItem shop_with_cart 2))) = [1]
   \<and> 5 \<notin> set (map cid (cart_items shop_with_cart))
   \<and> cart_items (fst (cart_removeItem shop_with_cart 5)) = cart_items shop_with_cart"
  using removeItem_idempotent [of shop_with_cart 2] removeItem_idempotent [of shop_with_cart 5]
  by (simp add: shop_with_cart_def shop_def cart_removeItem_def delete_cart_line_def Let_def
      sent_def cart_policy_def)

section \<open>No user\<close>

text \<open>
  C10: when no user is authenticated, \<^verbatim>\<open>removeFromCart\<close>, \<^verbatim>\<open>updateQuantity\<close> and
  \<^verbatim>\<open>clearCart\<close> of the cart context each return the world as it was: no request is sent
  to the store, the cart state is unchanged and no toast is shown.
\<close>

theorem no_user_noop:
  assumes "user w = None"
  shows "removeFromCart w i = w \<and> updateQuantity w i q = w \<and> clearCart w = w
       \<and> requests (store (removeFromCart w i)) = requests (store w)
       \<and> requests (store (updateQuantity w i q)) = requests (store w)
       \<and> requests (store (clearCart w)) = requests (store w)
       \<and> state (removeFromCart w i) = state w
       \<and> state (updateQuantity w i q) = state w
       \<and> state (clearCart w) = state w"
  using assms by (simp add: removeFromCart_def updateQuantity_def clearCart_def)

theorem no_user_noop_witness:
  "user signed_out = None \<and> removeFromCart signed_out 1 = signed_out
   \<and> updateQuantity signed_out 1 5 = signed_out \<and> clearCart signed_out = signed_out"
  using no_user_noop [of signed_out 1 5] by (simp add: signed_out_def)

end
